theory Spec2Isabelle
  imports Main
begin

section \<open>Lego train controller: the command core of the sketch\<close>

text \<open>
  The sketch \<^verbatim>\<open>lego-train-controller-arduino-yun.ino\<close> runs on an 8-bit AVR board:
  \<^verbatim>\<open>unsigned char\<close> has 8 bits, \<^verbatim>\<open>int\<close> has 16. An \<^verbatim>\<open>unsigned char\<close> is modelled
  as a \<^typ>\<open>nat\<close> below 256, and every conversion of an \<^verbatim>\<open>int\<close> to it is written out
  as a reduction modulo 256. Global arrays are stores from an index to a cell; an access
  the source makes outside the declared bounds is a \<open>fault\<close> of the model.
\<close>

subsection \<open>Faults\<close>

datatype fault =
  Write_past_buffer nat   \<comment> \<open>a store into \<^verbatim>\<open>buffer1\<close> at this index, which is not below its size\<close>
| Read_past_table int     \<comment> \<open>a read of \<^verbatim>\<open>fwdSpeed\<close> or \<^verbatim>\<open>revSpeed\<close> at this index\<close>
| Index_past_array nat    \<comment> \<open>an access to the queue, a servo, signal or sensor array at this index\<close>

definition and_then :: "fault + 'a \<Rightarrow> ('a \<Rightarrow> fault + 'b) \<Rightarrow> fault + 'b" where
  "and_then r f = (case r of Inl e \<Rightarrow> Inl e | Inr x \<Rightarrow> f x)"

subsection \<open>Global constants\<close>

definition NUM_LEGO_PF :: nat where "NUM_LEGO_PF = 2"
definition NUM_PF_IR_LEDS :: nat where "NUM_PF_IR_LEDS = 2"
definition NUM_POSITION_SENSORS :: nat where "NUM_POSITION_SENSORS = 2"
definition POSITION_SENSOR_IDS :: "nat list" where "POSITION_SENSOR_IDS = [0, 1]"

definition SERVO_SWITCH_MIN_ANGLE :: nat where "SERVO_SWITCH_MIN_ANGLE = 68"
definition SERVO_SWITCH_MAX_ANGLE :: nat where "SERVO_SWITCH_MAX_ANGLE = 85"
definition SERVO_SWITCH_ANGLES :: "nat list" where
  "SERVO_SWITCH_ANGLES = [SERVO_SWITCH_MIN_ANGLE, SERVO_SWITCH_MAX_ANGLE]"
definition NUM_SERVO_SWITCHES :: nat where "NUM_SERVO_SWITCHES = 4"

definition SERVO_BARRIER_MIN_ANGLE :: nat where "SERVO_BARRIER_MIN_ANGLE = 30"
definition SERVO_BARRIER_MAX_ANGLE :: nat where "SERVO_BARRIER_MAX_ANGLE = 128"
definition SERVO_BARRIER_ANGLES :: "nat list" where
  "SERVO_BARRIER_ANGLES = [SERVO_BARRIER_MIN_ANGLE, SERVO_BARRIER_MAX_ANGLE]"
definition NUM_SERVO_BARRIERS :: nat where "NUM_SERVO_BARRIERS = 4"

definition NUM_SIGNALS :: nat where "NUM_SIGNALS = 2"

definition MAX_BUFFER_SIZE :: nat where "MAX_BUFFER_SIZE = 255"

definition CONFIG :: string where "CONFIG = ''config''"
definition SWITCH :: string where "SWITCH = ''switch''"
definition SIGNAL :: string where "SIGNAL = ''signal''"
definition BARRIER :: string where "BARRIER = ''barrier''"
definition MOTOR :: string where "MOTOR = ''motor''"
definition LEGO :: string where "LEGO = ''lego''"
definition TRAIN :: string where "TRAIN = ''train''"
definition PF :: string where "PF = ''pf''"

subsection \<open>C strings\<close>

text \<open>
  A C string is modelled by the list of its characters before the terminating zero byte.
  \<open>str_at s i\<close> is \<^verbatim>\<open>s[i]\<close>: the character at \<open>i\<close>, and the terminator from the end of
  the list on (the tokenizer never moves its cursor past the terminator, so what the
  memory holds behind it is never read).
\<close>

definition NUL :: char where "NUL = CHR 0x00"

definition str_at :: "string \<Rightarrow> nat \<Rightarrow> char" where
  "str_at s i = (if i < length s then s ! i else NUL)"

text \<open>
  \<^verbatim>\<open>atoi\<close> of the C library: leading white space is skipped, an optional sign is read,
  then decimal digits up to the first other character; no digit gives 0. The result is
  an \<^verbatim>\<open>int\<close> of 16 bits, the accumulation wrapping around as the board's library does.
\<close>

definition isspace :: "char \<Rightarrow> bool" where
  "isspace c = (c = CHR '' '' \<or> c = CHR 0x09 \<or> c = CHR 0x0A \<or> c = CHR 0x0B
                \<or> c = CHR 0x0C \<or> c = CHR 0x0D)"

definition isdigit :: "char \<Rightarrow> bool" where
  "isdigit c = (48 \<le> (of_char c :: nat) \<and> (of_char c :: nat) \<le> 57)"

fun atoi_digits :: "int \<Rightarrow> string \<Rightarrow> int" where
  "atoi_digits acc [] = acc"
| "atoi_digits acc (c # cs) =
     (if isdigit c then atoi_digits (acc * 10 + (int (of_char c) - 48)) cs else acc)"

definition int16 :: "int \<Rightarrow> int" where
  "int16 v = (v + 32768) mod 65536 - 32768"

definition atoi :: "string \<Rightarrow> int" where
  "atoi s =
     (case dropWhile isspace s of
        [] \<Rightarrow> 0
      | c # cs \<Rightarrow>
          if c = CHR ''-'' then int16 (- atoi_digits 0 cs)
          else if c = CHR ''+'' then int16 (atoi_digits 0 cs)
          else int16 (atoi_digits 0 (c # cs)))"

text \<open>The conversion of an \<^verbatim>\<open>int\<close> to \<^verbatim>\<open>unsigned char\<close>.\<close>

definition uchar :: "int \<Rightarrow> nat" where
  "uchar v = nat (v mod 256)"

subsection \<open>The path tokenizer\<close>

text \<open>
  \<^verbatim>\<open>get_char_until_next_slash(str, buf, i)\<close> copies characters of \<open>str\<close> from the cursor
  \<open>i\<close> into \<open>buf\<close> until a slash (code 47), the terminator or cursor 255, and then
  stores a terminator behind them. The destination is \<^verbatim>\<open>buffer1\<close>, an array of
  \<open>MAX_BUFFER_SIZE\<close> characters. The model carries the characters stored so far in
  \<open>buf\<close>, so the write index \<open>j\<close> of the source is \<open>length buf\<close>; every store checks
  that index against the size of the buffer. The result is the token (the C string that
  \<^verbatim>\<open>buffer1\<close> holds afterwards) and the advanced cursor. The cursor is an
  \<^verbatim>\<open>unsigned char\<close>; it is incremented only below 255, so it never wraps.
\<close>

definition terminate :: "string \<Rightarrow> nat \<Rightarrow> fault + (string \<times> nat)" where
  "terminate buf i =
     (if length buf < MAX_BUFFER_SIZE then Inr (buf, i) else Inl (Write_past_buffer (length buf)))"

function get_char_loop :: "string \<Rightarrow> string \<Rightarrow> nat \<Rightarrow> fault + (string \<times> nat)" where
  "get_char_loop str buf i =
     (if str_at str i \<noteq> NUL \<and> i < MAX_BUFFER_SIZE then
        if str_at str i \<noteq> CHR ''/'' then
          if length buf < MAX_BUFFER_SIZE then get_char_loop str (buf @ [str_at str i]) (i + 1)
          else Inl (Write_past_buffer (length buf))
        else terminate buf (i + 1)
      else terminate buf i)"
  by pat_completeness auto
termination
  by (relation "measure (\<lambda>(str, buf, i). MAX_BUFFER_SIZE - i)") auto

definition get_char_until_next_slash :: "string \<Rightarrow> nat \<Rightarrow> fault + (string \<times> nat)" where
  "get_char_until_next_slash str i = get_char_loop str [] i"

subsection \<open>Constants of the Power Functions header\<close>

text \<open>
  \<^verbatim>\<open>legopowerfunctions.h\<close> is a library header outside the sketch. Its macros that the
  sketch uses are parameters of the model: the mode \<^verbatim>\<open>PWM\<close> and the fifteen speed
  steps. The two tables are built from them exactly as the sketch builds them.
\<close>

record pf_header =
  PWM :: int
  PWM_FLT :: int
  PWM_FWD1 :: int
  PWM_FWD2 :: int
  PWM_FWD3 :: int
  PWM_FWD4 :: int
  PWM_FWD5 :: int
  PWM_FWD6 :: int
  PWM_FWD7 :: int
  PWM_REV1 :: int
  PWM_REV2 :: int
  PWM_REV3 :: int
  PWM_REV4 :: int
  PWM_REV5 :: int
  PWM_REV6 :: int
  PWM_REV7 :: int

definition fwdSpeed :: "pf_header \<Rightarrow> int list" where
  "fwdSpeed h = [PWM_FLT h, PWM_FWD1 h, PWM_FWD2 h, PWM_FWD3 h, PWM_FWD4 h, PWM_FWD5 h,
                 PWM_FWD6 h, PWM_FWD7 h]"

definition revSpeed :: "pf_header \<Rightarrow> int list" where
  "revSpeed h = [PWM_FLT h, PWM_REV1 h, PWM_REV2 h, PWM_REV3 h, PWM_REV4 h, PWM_REV5 h,
                 PWM_REV6 h, PWM_REV7 h]"

text \<open>\<^verbatim>\<open>table[k]\<close> for one of the two tables: they have eight entries and no more.\<close>

definition table_at :: "int list \<Rightarrow> int \<Rightarrow> fault + int" where
  "table_at t k = (if 0 \<le> k \<and> k < int (length t) then Inr (t ! nat k) else Inl (Read_past_table k))"

subsection \<open>The state of the controller\<close>

text \<open>
  \<open>queue\<close> holds the cells of \<^verbatim>\<open>unsigned char queue[4]\<close>: the indices below
  \<open>QUEUE_SIZE\<close>. \<open>queue_store\<close> and \<open>queue_load\<close> are \<^verbatim>\<open>queue[k] = v\<close> and
  \<^verbatim>\<open>queue[k]\<close>; at an index that is not below \<open>QUEUE_SIZE\<close> the access leaves the
  array and is a fault.

  \<open>servo_switch\<close> and \<open>servo_barrier\<close> hold the angle last written to each servo,
  \<open>signal_pin k\<close> the level last written to the pin \<^verbatim>\<open>SIGNAL_PINS[k]\<close>,
  \<open>position_sensor\<close> the last value seen of each position sensor, and \<open>mqtt_connected\<close>
  what \<^verbatim>\<open>mqtt_client.connected()\<close> answers.
\<close>

datatype level = LOW | HIGH

record state =
  queue :: "nat \<Rightarrow> nat"
  servo_switch :: "nat \<Rightarrow> int"
  servo_barrier :: "nat \<Rightarrow> int"
  signal_pin :: "nat \<Rightarrow> level"
  position_sensor :: "nat \<Rightarrow> nat"
  mqtt_connected :: bool

definition QUEUE_SIZE :: nat where "QUEUE_SIZE = 4"

definition queue_store :: "nat \<Rightarrow> nat \<Rightarrow> state \<Rightarrow> fault + state" where
  "queue_store k v st =
     (if k < QUEUE_SIZE then Inr (st\<lparr>queue := (queue st)(k := v)\<rparr>)
      else Inl (Index_past_array k))"

definition queue_load :: "state \<Rightarrow> nat \<Rightarrow> fault + nat" where
  "queue_load st k = (if k < QUEUE_SIZE then Inr (queue st k) else Inl (Index_past_array k))"

text \<open>A counted loop over the indices \<open>js\<close> whose body may fault.\<close>

fun for_each :: "nat list \<Rightarrow> (nat \<Rightarrow> state \<Rightarrow> fault + state) \<Rightarrow> state \<Rightarrow> fault + state" where
  "for_each [] body st = Inr st"
| "for_each (j # js) body st =
     (case body j st of Inl e \<Rightarrow> Inl e | Inr st' \<Rightarrow> for_each js body st')"

subsection \<open>Switches and barriers\<close>

definition set_servo :: "bool \<Rightarrow> nat \<Rightarrow> int \<Rightarrow> state \<Rightarrow> fault + state" where
  "set_servo switch_or_barrier i a st =
     (if switch_or_barrier then
        if i < NUM_SERVO_SWITCHES then Inr (st\<lparr>servo_switch := (servo_switch st)(i := a)\<rparr>)
        else Inl (Index_past_array i)
      else
        if i < NUM_SERVO_BARRIERS then Inr (st\<lparr>servo_barrier := (servo_barrier st)(i := a)\<rparr>)
        else Inl (Index_past_array i))"

definition set_switch :: "nat \<Rightarrow> int \<Rightarrow> state \<Rightarrow> fault + state" where
  "set_switch i a st = set_servo True i a st"

definition switch_off :: "nat \<Rightarrow> state \<Rightarrow> fault + state" where
  "switch_off i st = set_switch i (int (SERVO_SWITCH_ANGLES ! 0)) st"

definition set_barrier :: "nat \<Rightarrow> int \<Rightarrow> state \<Rightarrow> fault + state" where
  "set_barrier i a st = set_servo False i a st"

definition barrier_off :: "nat \<Rightarrow> state \<Rightarrow> fault + state" where
  "barrier_off i st = set_barrier i (int (SERVO_BARRIER_ANGLES ! 0)) st"

subsection \<open>Signals\<close>

text \<open>
  \<^verbatim>\<open>digitalWrite(SIGNAL_PINS[k], lv)\<close>; the table of pins has \<open>2 * NUM_SIGNALS\<close> entries.
  A lamp is lit by the level \<open>LOW\<close>.
\<close>

definition write_signal_pin :: "nat \<Rightarrow> level \<Rightarrow> state \<Rightarrow> fault + state" where
  "write_signal_pin k lv st =
     (if k < 2 * NUM_SIGNALS then Inr (st\<lparr>signal_pin := (signal_pin st)(k := lv)\<rparr>)
      else Inl (Index_past_array k))"

definition set_signal :: "nat \<Rightarrow> nat \<Rightarrow> bool \<Rightarrow> state \<Rightarrow> fault + state" where
  "set_signal s l v st =
     for_each [0 ..< 2]
       (\<lambda>j. write_signal_pin (2 * s + j) (if v = (j = l) then LOW else HIGH)) st"

definition lit :: "state \<Rightarrow> nat \<Rightarrow> nat \<Rightarrow> bool" where
  "lit st s j = (signal_pin st (2 * s + j) = LOW)"

subsection \<open>Start-up\<close>

text \<open>
  \<open>static_init\<close> applies the initialisers of the globals to the memory \<open>mem\<close> found at
  power-on; the MQTT client is constructed there and is not connected. \<open>setup_board\<close>
  (the function \<^verbatim>\<open>setup\<close> of the sketch) then runs the initialisation functions that
  touch the state. Calls that configure pins, attach servos or start the web server do
  not touch the state modelled here and are left out; so is \<^verbatim>\<open>init_mqtt\<close>, which sets
  the server and the callback of the client and does not connect it.
\<close>

definition static_init :: "state \<Rightarrow> state" where
  "static_init mem =
     mem\<lparr>queue := (\<lambda>k. if k < QUEUE_SIZE then 0 else queue mem k),
         position_sensor := (\<lambda>i. if i < NUM_POSITION_SENSORS then 2 else position_sensor mem i),
         mqtt_connected := False\<rparr>"

definition init_servo_switches :: "state \<Rightarrow> fault + state" where
  "init_servo_switches st = for_each [0 ..< NUM_SERVO_SWITCHES] switch_off st"

definition init_servo_barriers :: "state \<Rightarrow> fault + state" where
  "init_servo_barriers st = for_each [0 ..< NUM_SERVO_BARRIERS] barrier_off st"

definition init_signals :: "state \<Rightarrow> fault + state" where
  "init_signals st =
     for_each [0 ..< NUM_SIGNALS]
       (\<lambda>i. for_each [0 ..< 2]
          (\<lambda>j. if j = 0 then set_signal i j True else set_signal i j False)) st"

definition setup_board :: "state \<Rightarrow> fault + state" where
  "setup_board mem =
     and_then (init_servo_switches (static_init mem)) (\<lambda>st.
     and_then (init_servo_barriers st) init_signals)"

subsection \<open>The dispatcher\<close>

text \<open>
  \<^verbatim>\<open>process_request_by_char(request, send_json_configuration)\<close>. The result is a fault,
  or the returned \<^verbatim>\<open>isok\<close>, the value left in \<^verbatim>\<open>send_json_configuration\<close> and the
  state. \<^verbatim>\<open>strcmp(buffer1, X) == 0\<close> is equality of the two C strings. The four
  subcommands with arguments are written as functions of their own, named after the
  comment that heads each in the sketch; each takes the request and the cursor behind
  the subcommand token. Prints to the serial line and the delay behind a servo write are
  left out.
\<close>

definition motor_power_functions ::
  "pf_header \<Rightarrow> state \<Rightarrow> string \<Rightarrow> nat \<Rightarrow> fault + (bool \<times> bool \<times> state)" where
  "motor_power_functions h st request index =
     and_then (get_char_until_next_slash request index) (\<lambda>(buffer1, index).
     let CH = uchar (atoi buffer1) in
     and_then (get_char_until_next_slash request index) (\<lambda>(buffer1, index).
     let CO = uchar (atoi buffer1) in
     and_then (get_char_until_next_slash request index) (\<lambda>(buffer1, index).
     let VA = atoi buffer1 in
     and_then (if VA \<ge> 0 then table_at (fwdSpeed h) VA else table_at (revSpeed h) (- VA)) (\<lambda>VA.
     and_then (queue_store 0 5 st) (\<lambda>st.
     and_then (queue_store 1 (uchar (PWM h)) st) (\<lambda>st.
     and_then (queue_store 2 (uchar VA) st) (\<lambda>st.
     and_then (queue_store 3 CO st) (\<lambda>st.
     and_then (queue_store 4 CH st) (\<lambda>st.
     Inr (True, False, st))))))))))"

definition train_motor ::
  "pf_header \<Rightarrow> state \<Rightarrow> string \<Rightarrow> nat \<Rightarrow> fault + (bool \<times> bool \<times> state)" where
  "train_motor h st request index =
     and_then (get_char_until_next_slash request index) (\<lambda>(buffer1, index).
     if buffer1 = PF then motor_power_functions h st request index
     else Inr (False, False, st))"

definition train_signal :: "state \<Rightarrow> string \<Rightarrow> nat \<Rightarrow> fault + (bool \<times> bool \<times> state)" where
  "train_signal st request index =
     and_then (get_char_until_next_slash request index) (\<lambda>(buffer1, index).
     let Signal = uchar (atoi buffer1) in
     if Signal \<ge> 0 \<and> Signal < NUM_SIGNALS then
       and_then (get_char_until_next_slash request index) (\<lambda>(buffer1, index).
       let Light = uchar (atoi buffer1) in
       if Light \<ge> 0 \<and> Light < 2 then
         and_then (get_char_until_next_slash request index) (\<lambda>(buffer1, index).
         let Value = uchar (atoi buffer1) in
         if Value \<ge> 0 \<and> Value \<le> 1 then
           and_then (set_signal Signal Light (Value = 1) st) (\<lambda>st'. Inr (True, False, st'))
         else Inr (True, False, st))
       else Inr (True, False, st))
     else Inr (True, False, st))"

definition train_switch :: "state \<Rightarrow> string \<Rightarrow> nat \<Rightarrow> fault + (bool \<times> bool \<times> state)" where
  "train_switch st request index =
     and_then (get_char_until_next_slash request index) (\<lambda>(buffer1, index).
     let s = uchar (atoi buffer1) in
     and_then (get_char_until_next_slash request index) (\<lambda>(buffer1, index).
     let a = uchar (atoi buffer1) in
     if s \<ge> 0 \<and> s < NUM_SERVO_SWITCHES \<and> a \<ge> 0 \<and> a < 2 then
       let ang = SERVO_SWITCH_ANGLES ! a in
       and_then (set_switch s (int ang) st) (\<lambda>st'. Inr (True, False, st'))
     else Inr (True, False, st)))"

definition train_barrier :: "state \<Rightarrow> string \<Rightarrow> nat \<Rightarrow> fault + (bool \<times> bool \<times> state)" where
  "train_barrier st request index =
     and_then (get_char_until_next_slash request index) (\<lambda>(buffer1, index).
     let b = uchar (atoi buffer1) in
     and_then (get_char_until_next_slash request index) (\<lambda>(buffer1, index).
     let a = uchar (atoi buffer1) in
     if b \<ge> 0 \<and> b < NUM_SERVO_BARRIERS \<and> a \<ge> 0 \<and> a < 2 then
       let ang = SERVO_BARRIER_ANGLES ! a in
       and_then (set_barrier b (int ang) st) (\<lambda>st'. Inr (True, False, st'))
     else Inr (True, False, st)))"

definition process_request_by_char ::
  "pf_header \<Rightarrow> state \<Rightarrow> string \<Rightarrow> fault + (bool \<times> bool \<times> state)" where
  "process_request_by_char h st request =
     and_then (get_char_until_next_slash request 0) (\<lambda>(buffer1, index).
     if buffer1 = LEGO then
       and_then (get_char_until_next_slash request index) (\<lambda>(buffer1, index).
       if buffer1 = TRAIN then
         and_then (get_char_until_next_slash request index) (\<lambda>(buffer1, index).
         if buffer1 = CONFIG then Inr (True, True, st)
         else if buffer1 = MOTOR then train_motor h st request index
         else if buffer1 = SIGNAL then train_signal st request index
         else if buffer1 = SWITCH then train_switch st request index
         else if buffer1 = BARRIER then train_barrier st request index
         else Inr (False, False, st))
       else Inr (False, False, st))
     else Inr (False, False, st))"

subsection \<open>The IR queue\<close>

text \<open>
  \<^verbatim>\<open>update_pf_ir_queue\<close>. One transmission is the call
  \<^verbatim>\<open>lego_pf[i].SingleOutput(queue[1], queue[2], queue[3], queue[4])\<close>, recorded with
  the index \<open>i\<close> of the transmitter. The array \<^verbatim>\<open>lego_pf\<close> holds one transmitter for
  each of the \<open>NUM_PF_IR_LEDS\<close> IR outputs; the loop runs over \<open>NUM_LEGO_PF\<close> of them.
\<close>

record transmission =
  transmitter :: nat
  arg_mode :: nat
  arg_step :: nat
  arg_output :: nat
  arg_channel :: nat

definition SingleOutput :: "state \<Rightarrow> nat \<Rightarrow> fault + transmission" where
  "SingleOutput st i =
     and_then (queue_load st 1) (\<lambda>mode.
     and_then (queue_load st 2) (\<lambda>step.
     and_then (queue_load st 3) (\<lambda>output.
     and_then (queue_load st 4) (\<lambda>channel.
     Inr \<lparr>transmitter = i, arg_mode = mode, arg_step = step, arg_output = output,
          arg_channel = channel\<rparr>))))"

fun transmit_all :: "state \<Rightarrow> nat list \<Rightarrow> fault + transmission list" where
  "transmit_all st [] = Inr []"
| "transmit_all st (i # is) =
     (case SingleOutput st i of
        Inl e \<Rightarrow> Inl e
      | Inr t \<Rightarrow> (case transmit_all st is of Inl e \<Rightarrow> Inl e | Inr ts \<Rightarrow> Inr (t # ts)))"

definition update_pf_ir_queue :: "state \<Rightarrow> fault + (state \<times> transmission list)" where
  "update_pf_ir_queue st =
     (if queue st 0 > 0 then
        and_then (transmit_all st [0 ..< NUM_LEGO_PF]) (\<lambda>sent.
        Inr (st\<lparr>queue := (queue st)(0 := queue st 0 - 1)\<rparr>, sent))
      else Inr (st, []))"

subsection \<open>Position sensors\<close>

text \<open>
  \<^verbatim>\<open>itoa(v, buf, 10)\<close> and \<^verbatim>\<open>mqtt_publish_position_sensor(i, v)\<close>. The result of the
  latter lists the messages, a topic and a payload each, that it hands to
  \<^verbatim>\<open>mqtt_client.publish\<close>: one when the client is connected, none otherwise.
\<close>

fun decimal :: "nat \<Rightarrow> string" where
  "decimal n =
     (if n < 10 then [char_of (48 + n)] else decimal (n div 10) @ [char_of (48 + n mod 10)])"

definition itoa :: "int \<Rightarrow> string" where
  "itoa v = (if v < 0 then CHR ''-'' # decimal (nat (- v)) else decimal (nat v))"

definition mqtt_publish_position_sensor :: "state \<Rightarrow> nat \<Rightarrow> nat \<Rightarrow> (string \<times> string) list" where
  "mqtt_publish_position_sensor st i v =
     (if mqtt_connected st then
        [(''lego/train/position/'' @ itoa (int (POSITION_SENSOR_IDS ! i)), itoa (int v))]
      else [])"

text \<open>
  \<^verbatim>\<open>update_position_sensors\<close>. \<open>raw i\<close> is what \<^verbatim>\<open>digitalRead\<close> returns for the pin
  of sensor \<open>i\<close> in this poll, an \<^verbatim>\<open>int\<close>. The result is the state and the messages
  published, in the order of the sensors.
\<close>

fun poll_sensors ::
  "nat list \<Rightarrow> (nat \<Rightarrow> int) \<Rightarrow> state \<Rightarrow> state \<times> (string \<times> string) list" where
  "poll_sensors [] raw st = (st, [])"
| "poll_sensors (i # is) raw st =
     (let v = uchar (raw i);
          v = uchar ((int v + 1) mod 2)
      in if v \<noteq> position_sensor st i then
           (let st1 = st\<lparr>position_sensor := (position_sensor st)(i := v)\<rparr>;
                published = mqtt_publish_position_sensor st1 i v;
                (st', rest) = poll_sensors is raw st1
            in (st', published @ rest))
         else poll_sensors is raw st)"

definition update_position_sensors ::
  "state \<Rightarrow> (nat \<Rightarrow> int) \<Rightarrow> state \<times> (string \<times> string) list" where
  "update_position_sensors st raw = poll_sensors [0 ..< NUM_POSITION_SENSORS] raw st"

subsection \<open>One pass of the main loop\<close>

text \<open>
  \<^verbatim>\<open>update_mqtt\<close>: a client that is not connected tries to connect; \<open>connect_ok\<close> is
  the answer of \<^verbatim>\<open>mqtt_client.connect\<close>. Messages that arrive in
  \<^verbatim>\<open>mqtt_client.loop\<close> reach the dispatcher through the callback and are dispatches of
  their own.

  \<^verbatim>\<open>loop\<close> with no web client waiting, in the order of the sketch: the sensors are
  polled, then the queue is served, then the MQTT client is looked after. The result is
  the state, the messages published and the transmissions made.
\<close>

definition update_mqtt :: "bool \<Rightarrow> state \<Rightarrow> state" where
  "update_mqtt connect_ok st =
     (if \<not> mqtt_connected st then
        if \<not> connect_ok then st else st\<lparr>mqtt_connected := True\<rparr>
      else st)"

definition loop ::
  "state \<Rightarrow> (nat \<Rightarrow> int) \<Rightarrow> bool \<Rightarrow>
     fault + (state \<times> (string \<times> string) list \<times> transmission list)" where
  "loop st raw connect_ok =
     (let (st1, published) = update_position_sensors st raw
      in and_then (update_pf_ir_queue st1) (\<lambda>(st2, sent).
         Inr (update_mqtt connect_ok st2, published, sent)))"

subsection \<open>Notions used to state the properties\<close>

text \<open>
  The token that starts at cursor \<open>i\<close> of a path: its characters up to the next slash
  or the end of the string; and the cursor behind it, which steps over the slash.
\<close>

definition plain :: "char \<Rightarrow> bool" where
  "plain c = (c \<noteq> CHR ''/'' \<and> c \<noteq> NUL)"

definition token_at :: "string \<Rightarrow> nat \<Rightarrow> string" where
  "token_at str i = takeWhile plain (drop i str)"

definition cursor_after :: "string \<Rightarrow> nat \<Rightarrow> nat" where
  "cursor_after str i =
     (let k = i + length (token_at str i) in if str_at str k = CHR ''/'' then k + 1 else k)"

fun token_from :: "string \<Rightarrow> nat \<Rightarrow> nat \<Rightarrow> string" where
  "token_from str 0 i = token_at str i"
| "token_from str (Suc k) i = token_from str k (cursor_after str i)"

definition path_token :: "string \<Rightarrow> nat \<Rightarrow> string" where
  "path_token str k = token_from str k 0"

text \<open>
  The grammar of the command surface, down to the subcommand:
  \<^verbatim>\<open>lego/train/config\<close>, \<^verbatim>\<open>lego/train/motor/pf/...\<close>, \<^verbatim>\<open>lego/train/signal/...\<close>,
  \<^verbatim>\<open>lego/train/switch/...\<close>, \<^verbatim>\<open>lego/train/barrier/...\<close>.
\<close>

definition motor_command :: "string \<Rightarrow> bool" where
  "motor_command request =
     (path_token request 0 = LEGO \<and> path_token request 1 = TRAIN \<and>
      path_token request 2 = MOTOR \<and> path_token request 3 = PF)"

definition top_level_match :: "string \<Rightarrow> bool" where
  "top_level_match request =
     (path_token request 0 = LEGO \<and> path_token request 1 = TRAIN \<and>
      (path_token request 2 = CONFIG \<or> motor_command request \<or>
       path_token request 2 = SIGNAL \<or> path_token request 2 = SWITCH \<or>
       path_token request 2 = BARRIER))"

text \<open>Exactly one of the two lamps of signal \<open>s\<close> is lit.\<close>

definition one_lamp_lit :: "state \<Rightarrow> nat \<Rightarrow> bool" where
  "one_lamp_lit st s = (lit st s 0 \<noteq> lit st s 1)"


text \<open>
  Concrete values for the examples: a header with the step codes of the Power Functions
  protocol, and a memory that is zero everywhere with all pins high.
\<close>

definition protocol_header :: pf_header where
  "protocol_header =
     \<lparr>PWM = 0, PWM_FLT = 0, PWM_FWD1 = 1, PWM_FWD2 = 2, PWM_FWD3 = 3, PWM_FWD4 = 4,
      PWM_FWD5 = 5, PWM_FWD6 = 6, PWM_FWD7 = 7, PWM_REV1 = 15, PWM_REV2 = 14, PWM_REV3 = 13,
      PWM_REV4 = 12, PWM_REV5 = 11, PWM_REV6 = 10, PWM_REV7 = 9\<rparr>"

definition blank_memory :: state where
  "blank_memory =
     \<lparr>queue = (\<lambda>k. 0), servo_switch = (\<lambda>i. 0), servo_barrier = (\<lambda>i. 0),
      signal_pin = (\<lambda>k. HIGH), position_sensor = (\<lambda>i. 0), mqtt_connected = False\<rparr>"

section \<open>Properties\<close>

subsection \<open>Evaluation on concrete requests\<close>

lemmas eval_defs = process_request_by_char_def and_then_def get_char_until_next_slash_def
  str_at_def NUL_def MAX_BUFFER_SIZE_def terminate_def LEGO_def TRAIN_def CONFIG_def MOTOR_def
  SIGNAL_def SWITCH_def BARRIER_def PF_def atoi_def isspace_def isdigit_def int16_def uchar_def

lemmas setup_defs = setup_board_def and_then_def init_servo_switches_def
  init_servo_barriers_def init_signals_def NUM_SERVO_SWITCHES_def NUM_SERVO_BARRIERS_def
  NUM_SIGNALS_def switch_off_def barrier_off_def set_switch_def set_barrier_def set_servo_def
  set_signal_def write_signal_pin_def SERVO_SWITCH_ANGLES_def SERVO_BARRIER_ANGLES_def

lemma decimal_digits:
  "decimal 0 = ''0''" "decimal (Suc 0) = ''1''" "decimal 2 = ''2''" "decimal 3 = ''3''"
  by code_simp+

declare decimal.simps [simp del]

lemma less_4_cases: "(i::nat) < 4 \<Longrightarrow> i = 0 \<or> i = 1 \<or> i = 2 \<or> i = 3"
  by arith

lemma less_2_cases: "(i::nat) < 2 \<Longrightarrow> i = 0 \<or> i = 1"
  by arith

lemma upt_2: "[0 ..< 2] = [0, Suc 0]"
  by (simp add: upt_rec)

lemma upt_4: "[0 ..< 4] = [0, Suc 0, 2, 3]"
  by (simp add: upt_rec)

text \<open>The state behind start-up: every switch and barrier at its minimum angle, lamp 0 of
  every signal lit, the queue empty, the sensors at the value 2.\<close>

lemma setup_board_result:
  "setup_board mem = Inr (static_init mem
     \<lparr>servo_switch := (servo_switch mem)
        (0 := int SERVO_SWITCH_MIN_ANGLE, Suc 0 := int SERVO_SWITCH_MIN_ANGLE,
         2 := int SERVO_SWITCH_MIN_ANGLE, 3 := int SERVO_SWITCH_MIN_ANGLE),
      servo_barrier := (servo_barrier mem)
        (0 := int SERVO_BARRIER_MIN_ANGLE, Suc 0 := int SERVO_BARRIER_MIN_ANGLE,
         2 := int SERVO_BARRIER_MIN_ANGLE, 3 := int SERVO_BARRIER_MIN_ANGLE),
      signal_pin := (signal_pin mem)(0 := LOW, Suc 0 := HIGH, 2 := LOW, 3 := HIGH)\<rparr>)"
  by (simp add: setup_defs upt_2 upt_4 static_init_def) (simp add: eval_nat_numeral)

lemmas token_defs = top_level_match_def motor_command_def path_token_def token_at_def
  cursor_after_def plain_def str_at_def NUL_def LEGO_def TRAIN_def MOTOR_def PF_def
  numeral_2_eq_2 numeral_3_eq_3

subsection \<open>The tokenizer\<close>

lemma token_at_stop:
  "str_at str i = NUL \<or> str_at str i = CHR ''/'' \<Longrightarrow> token_at str i = []"
  by (cases "i < length str")
     (auto simp: token_at_def str_at_def plain_def Cons_nth_drop_Suc [symmetric])

lemma token_at_copy:
  "str_at str i \<noteq> NUL \<Longrightarrow> str_at str i \<noteq> CHR ''/'' \<Longrightarrow>
   token_at str i = str_at str i # token_at str (Suc i)"
  by (cases "i < length str")
     (auto simp: token_at_def str_at_def plain_def Cons_nth_drop_Suc [symmetric])

lemma cursor_after_copy:
  "str_at str i \<noteq> NUL \<Longrightarrow> str_at str i \<noteq> CHR ''/'' \<Longrightarrow>
   cursor_after str i = cursor_after str (Suc i)"
  by (simp add: cursor_after_def token_at_copy)

text \<open>On a request that fits its buffer with its terminator, the loop returns the token
  at the cursor and never faults.\<close>

lemma get_char_loop_token:
  "length str < MAX_BUFFER_SIZE \<Longrightarrow> length buf + length (token_at str i) < MAX_BUFFER_SIZE \<Longrightarrow>
   get_char_loop str buf i = Inr (buf @ token_at str i, cursor_after str i)"
proof (induction str buf i rule: get_char_loop.induct)
  case (1 str buf i)
  show ?case
  proof (cases "str_at str i \<noteq> NUL \<and> i < MAX_BUFFER_SIZE")
    case False
    with "1.prems" have "str_at str i = NUL"
      by (auto simp: str_at_def)
    with "1.prems" show ?thesis
      by (subst get_char_loop.simps) (simp add: token_at_stop cursor_after_def terminate_def NUL_def)
  next
    case True
    show ?thesis
    proof (cases "str_at str i = CHR ''/''")
      case True
      with \<open>str_at str i \<noteq> NUL \<and> i < MAX_BUFFER_SIZE\<close> "1.prems" show ?thesis
        by (subst get_char_loop.simps) (simp add: token_at_stop cursor_after_def terminate_def)
    next
      case False
      with True have tok: "token_at str i = str_at str i # token_at str (Suc i)"
        and cur: "cursor_after str i = cursor_after str (Suc i)"
        by (simp_all add: token_at_copy cursor_after_copy)
      from "1.prems" tok have len: "length buf < MAX_BUFFER_SIZE"
        and len': "length (buf @ [str_at str i]) + length (token_at str (i + 1)) < MAX_BUFFER_SIZE"
        by simp_all
      have "get_char_loop str buf i = get_char_loop str (buf @ [str_at str i]) (i + 1)"
        using True False len by (subst get_char_loop.simps) simp
      also have "\<dots> = Inr ((buf @ [str_at str i]) @ token_at str (i + 1), cursor_after str (i + 1))"
        using True False len "1.prems"(1) len' by (intro "1.IH") simp_all
      finally show ?thesis
        by (simp add: tok cur)
    qed
  qed
qed

lemma length_token_at: "length (token_at str i) \<le> length str - i"
  unfolding token_at_def by (rule order_trans [OF length_takeWhile_le]) simp

lemma get_char_until_next_slash_token:
  "length str < MAX_BUFFER_SIZE \<Longrightarrow>
   get_char_until_next_slash str i = Inr (token_at str i, cursor_after str i)"
  unfolding get_char_until_next_slash_def
  using length_token_at [of str i] by (subst get_char_loop_token) simp_all

text \<open>
  Claim C8 (the tokenizer stores the token and its terminator below index
  \<open>MAX_BUFFER_SIZE\<close> of the destination, for every input and cursor). The loop is
  bounded by the cursor, not by the write index: from cursor 0, a string of 255
  characters without a slash fills the indices 0 to 254 of the destination, and the
  terminator is then stored at index 255, which is \<open>MAX_BUFFER_SIZE\<close>.
\<close>

theorem tokenizer_terminator_at_index_255:
  "get_char_until_next_slash (replicate 255 (CHR ''a'')) 0 = Inl (Write_past_buffer MAX_BUFFER_SIZE)"
  unfolding MAX_BUFFER_SIZE_def by code_simp

subsection \<open>Requests outside the grammar\<close>

text \<open>A dispatch that returns went through exactly one branch.\<close>

lemma dispatch_cases:
  assumes "process_request_by_char h st request = Inr (isok, cfg, st')"
  obtains (same) "st' = st" "cfg = isok"
    | (motor) i where "train_motor h st request i = Inr (isok, cfg, st')"
    | (signal) i where "train_signal st request i = Inr (isok, cfg, st')"
    | (switch) i where "train_switch st request i = Inr (isok, cfg, st')"
    | (barrier) i where "train_barrier st request i = Inr (isok, cfg, st')"
  using assms unfolding process_request_by_char_def and_then_def
  by (simp split: sum.splits prod.splits if_splits)

text \<open>The store \<^verbatim>\<open>queue[4] = CH\<close> ends every pass through the \<^verbatim>\<open>pf\<close> branch, so
  that branch never returns; the motor branch returns only for another motor kind.\<close>

lemma queue_store_4: "queue_store 4 v st = Inl (Index_past_array QUEUE_SIZE)"
  by (simp add: queue_store_def QUEUE_SIZE_def)

lemma queue_store_below:
  "k < 4 \<Longrightarrow> queue_store k v st = Inr (st\<lparr>queue := (queue st)(k := v)\<rparr>)"
  by (simp add: queue_store_def QUEUE_SIZE_def)

lemma motor_power_functions_never_returns:
  "motor_power_functions h st request i \<noteq> Inr r"
  unfolding motor_power_functions_def and_then_def Let_def
  by (simp add: queue_store_4 queue_store_below split: sum.splits prod.splits)

lemma train_motor_returns:
  "train_motor h st request i = Inr (isok, cfg, st') \<Longrightarrow> \<not> isok \<and> \<not> cfg \<and> st' = st"
  unfolding train_motor_def and_then_def
  by (auto simp: motor_power_functions_never_returns split: sum.splits prod.splits if_splits)

lemma train_motor_rejects:
  "train_motor h st request i = Inr (False, cfg, st') \<Longrightarrow> cfg = False \<and> st' = st"
  by (auto dest: train_motor_returns)

lemma train_signal_accepts: "train_signal st request i \<noteq> Inr (False, cfg, st')"
  unfolding train_signal_def and_then_def Let_def
  by (auto split: sum.splits prod.splits if_splits)

lemma train_switch_accepts: "train_switch st request i \<noteq> Inr (False, cfg, st')"
  unfolding train_switch_def and_then_def Let_def
  by (auto split: sum.splits prod.splits if_splits)

lemma train_barrier_accepts: "train_barrier st request i \<noteq> Inr (False, cfg, st')"
  unfolding train_barrier_def and_then_def Let_def
  by (auto split: sum.splits prod.splits if_splits)

lemma rejected_without_effect:
  assumes "process_request_by_char h st request = Inr (False, cfg, st')"
  shows "\<not> cfg \<and> st' = st"
  using assms
proof (cases rule: dispatch_cases)
  case same
  then show ?thesis by simp
next
  case motor
  then show ?thesis using train_motor_rejects [of h st request _ cfg st'] by blast
next
  case signal
  then show ?thesis by (simp add: train_signal_accepts)
next
  case switch
  then show ?thesis by (simp add: train_switch_accepts)
next
  case barrier
  then show ?thesis by (simp add: train_barrier_accepts)
qed

lemma dispatch_mismatch:
  assumes "length request < MAX_BUFFER_SIZE" and "\<not> top_level_match request"
  shows "process_request_by_char h st request = Inr (False, False, st)"
  using assms(2)
  by (simp add: process_request_by_char_def train_motor_def and_then_def
        get_char_until_next_slash_token [OF assms(1)] top_level_match_def motor_command_def
        path_token_def numeral_2_eq_2 numeral_3_eq_3)

lemma foo_bar_mismatch: "\<not> top_level_match ''foo/bar''"
  by (simp add: token_defs)

text \<open>
  Claim C9: a request whose tokens do not match the grammar down to the subcommand is
  answered with \<^verbatim>\<open>isok = false\<close>, asks for no configuration document and leaves the
  whole state (queue, switches, barriers, signals, sensors) as it was. The request is
  one that fits the request buffer of \<open>MAX_BUFFER_SIZE\<close> bytes with its terminator.
  \<^verbatim>\<open>foo/bar\<close> is such a request. Moreover, whatever the request, an answer
  \<^verbatim>\<open>isok = false\<close> comes with no document asked for and with the state unchanged.
\<close>

theorem mismatching_request_rejected_without_effect:
  "(length request < MAX_BUFFER_SIZE \<and> \<not> top_level_match request \<longrightarrow>
      process_request_by_char h st request = Inr (False, False, st))
   \<and> \<not> top_level_match ''foo/bar''
   \<and> process_request_by_char h st ''foo/bar'' = Inr (False, False, st)
   \<and> (process_request_by_char h st request = Inr (False, cfg, st') \<longrightarrow> \<not> cfg \<and> st' = st)"
  using dispatch_mismatch [of request h st] dispatch_mismatch [of "''foo/bar''" h st]
    foo_bar_mismatch rejected_without_effect [of h st request cfg st']
  by (auto simp: MAX_BUFFER_SIZE_def)

theorem mismatching_request_rejected_without_effect_witness:
  "length ''lego/trains/config'' < MAX_BUFFER_SIZE \<and> \<not> top_level_match ''lego/trains/config''
   \<and> process_request_by_char protocol_header blank_memory ''lego/trains/config'' =
        Inr (False, False, blank_memory)"
proof -
  have "\<not> top_level_match ''lego/trains/config''"
    by (simp add: token_defs)
  with mismatching_request_rejected_without_effect
         [of "''lego/trains/config''" protocol_header blank_memory False blank_memory]
  show ?thesis
    by (simp add: MAX_BUFFER_SIZE_def)
qed

subsection \<open>The motor branch\<close>

lemmas motor_defs = train_motor_def motor_power_functions_def table_at_def fwdSpeed_def
  revSpeed_def queue_store_4 queue_store_below

text \<open>
  Claim C1 (every command that reaches the \<^verbatim>\<open>pf\<close> branch loads the queue with the
  count 5 and the speed level taken from the forward or the reverse table). The branch
  has no check of the speed. The command \<^verbatim>\<open>lego/train/motor/pf/1/0/8\<close> reaches it and
  makes it read \<^verbatim>\<open>fwdSpeed[8]\<close>, behind the eight entries of the table: the dispatcher
  faults and loads nothing that the table defines.
\<close>

theorem motor_speed_8_reads_past_table:
  "process_request_by_char h st ''lego/train/motor/pf/1/0/8'' = Inl (Read_past_table 8)"
  by (simp add: eval_defs train_motor_def motor_power_functions_def table_at_def fwdSpeed_def)

lemma dispatch_motor:
  assumes "length request < MAX_BUFFER_SIZE" and "motor_command request"
  shows "process_request_by_char h st request =
           motor_power_functions h st request
             (cursor_after request (cursor_after request (cursor_after request
                (cursor_after request 0))))"
  using assms(2)
  by (simp add: process_request_by_char_def train_motor_def and_then_def
        get_char_until_next_slash_token [OF assms(1)] motor_command_def path_token_def
        numeral_2_eq_2 numeral_3_eq_3 MOTOR_def CONFIG_def)

text \<open>With a speed from \<open>-7\<close> to \<open>7\<close> the tables are read within their bounds, and the
  command ends in the store behind the queue.\<close>

lemma motor_command_in_range:
  assumes "length request < MAX_BUFFER_SIZE" and "motor_command request"
    and "- 7 \<le> atoi (path_token request 6)" and "atoi (path_token request 6) \<le> 7"
  shows "process_request_by_char h st request = Inl (Index_past_array QUEUE_SIZE)"
  using assms(3,4)
  by (simp add: dispatch_motor [OF assms(1,2)] motor_power_functions_def and_then_def
        get_char_until_next_slash_token [OF assms(1)] path_token_def eval_nat_numeral
        table_at_def fwdSpeed_def revSpeed_def Let_def queue_store_def QUEUE_SIZE_def)

text \<open>
  Claim C6 (a motor command \<open>B\<close> loaded behind a motor command \<open>A\<close> leaves the queue with
  exactly the payload of \<open>B\<close> and its count). The payload of a motor command has five
  bytes and the queue has four cells: the branch stores the count, the mode, the step
  and the output in \<^verbatim>\<open>queue[0]\<close> to \<^verbatim>\<open>queue[3]\<close> and then the channel in
  \<^verbatim>\<open>queue[4]\<close>, behind the array. So the queue never holds the channel of a command;
  the dispatch of \<^verbatim>\<open>lego/train/motor/pf/1/0/7\<close> and the dispatch of
  \<^verbatim>\<open>lego/train/motor/pf/2/1/-3\<close> both end in that store, from every state.
\<close>

theorem motor_load_stores_channel_past_queue:
  "process_request_by_char h st ''lego/train/motor/pf/1/0/7'' = Inl (Index_past_array QUEUE_SIZE)
   \<and> process_request_by_char h st' ''lego/train/motor/pf/2/1/-3'' =
       Inl (Index_past_array QUEUE_SIZE)"
  by (simp add: eval_defs motor_defs)

subsection \<open>The switch branch\<close>

lemma switch_command:
  "s < NUM_SERVO_SWITCHES \<Longrightarrow> a < 2 \<Longrightarrow>
   process_request_by_char h st (''lego/train/switch/'' @ decimal s @ ''/'' @ decimal a) =
     Inr (True, False, st\<lparr>servo_switch := (servo_switch st)(s := int (SERVO_SWITCH_ANGLES ! a))\<rparr>)"
  apply (simp only: NUM_SERVO_SWITCHES_def)
  apply (drule less_4_cases, drule less_2_cases)
  apply (elim disjE; simp add: decimal_digits;
         simp add: eval_defs train_switch_def NUM_SERVO_SWITCHES_def set_switch_def
                   set_servo_def SERVO_SWITCH_ANGLES_def)
  done

lemma switch_256:
  "process_request_by_char h st ''lego/train/switch/256/1'' =
     Inr (True, False, st\<lparr>servo_switch := (servo_switch st)(0 := int SERVO_SWITCH_MAX_ANGLE)\<rparr>)"
  by (simp add: eval_defs train_switch_def NUM_SERVO_SWITCHES_def set_switch_def
                set_servo_def SERVO_SWITCH_ANGLES_def)

text \<open>
  Claim C2 (a switch command whose id lies outside \<open>[0, NUM_SERVO_SWITCHES)\<close> is accepted
  and changes no switch). The id is narrowed to an \<^verbatim>\<open>unsigned char\<close> before the range
  check, so the id 256 is checked as 0: behind start-up, the command
  \<^verbatim>\<open>lego/train/switch/256/1\<close> is accepted and moves switch 0 from its minimum angle to
  its maximum angle.
\<close>

theorem switch_id_256_moves_switch_0:
  "\<exists>st st'. setup_board mem = Inr st
      \<and> process_request_by_char h st ''lego/train/switch/256/1'' = Inr (True, False, st')
      \<and> servo_switch st 0 = 68 \<and> servo_switch st' 0 = 85
      \<and> \<not> 256 < NUM_SERVO_SWITCHES"
  by (simp add: setup_board_result switch_256 SERVO_SWITCH_MIN_ANGLE_def
                SERVO_SWITCH_MAX_ANGLE_def NUM_SERVO_SWITCHES_def)

lemma switch_request:
  assumes "length request < MAX_BUFFER_SIZE"
    and "path_token request 0 = LEGO" and "path_token request 1 = TRAIN"
    and "path_token request 2 = SWITCH"
  shows "process_request_by_char h st request =
     (let s = uchar (atoi (path_token request 3)); a = uchar (atoi (path_token request 4))
      in if s < NUM_SERVO_SWITCHES \<and> a < 2
         then Inr (True, False,
                   st\<lparr>servo_switch := (servo_switch st)(s := int (SERVO_SWITCH_ANGLES ! a))\<rparr>)
         else Inr (True, False, st))"
  using assms(2-4)
  by (simp add: process_request_by_char_def train_switch_def and_then_def
        get_char_until_next_slash_token [OF assms(1)] path_token_def eval_nat_numeral
        set_switch_def set_servo_def Let_def SWITCH_def CONFIG_def MOTOR_def SIGNAL_def)

lemma uchar_small: "n < 256 \<Longrightarrow> uchar (int n) = n"
  by (simp add: uchar_def)

text \<open>
  Claim C3: for every switch id \<open>s\<close> below \<open>NUM_SERVO_SWITCHES\<close> and selector \<open>a\<close> in
  \<open>{0, 1}\<close>, the command \<^verbatim>\<open>lego/train/switch/<s>/<a>\<close> is accepted and leaves the state
  with the angle of switch \<open>s\<close> at the minimum angle for \<open>a = 0\<close> and at the maximum angle
  for \<open>a = 1\<close>, nothing else changed. This holds for the id and the selector written in
  decimal, and for every request that fits the request buffer and spells them in any way
  that \<^verbatim>\<open>atoi\<close> reads as \<open>s\<close> and \<open>a\<close>. In particular \<^verbatim>\<open>lego/train/switch/0/1\<close> puts
  switch 0 at the maximum angle and a following \<^verbatim>\<open>lego/train/switch/0/0\<close> puts it at
  the minimum angle.
\<close>

theorem switch_command_sets_registered_angle:
  assumes "s < NUM_SERVO_SWITCHES" and "a < 2"
  shows "process_request_by_char h st (''lego/train/switch/'' @ decimal s @ ''/'' @ decimal a) =
           Inr (True, False,
                st\<lparr>servo_switch := (servo_switch st)
                      (s := int (if a = 0 then SERVO_SWITCH_MIN_ANGLE
                                 else SERVO_SWITCH_MAX_ANGLE))\<rparr>)
       \<and> (length request < MAX_BUFFER_SIZE \<and> path_token request 0 = LEGO
            \<and> path_token request 1 = TRAIN \<and> path_token request 2 = SWITCH
            \<and> atoi (path_token request 3) = int s \<and> atoi (path_token request 4) = int a \<longrightarrow>
          process_request_by_char h st request =
            Inr (True, False,
                 st\<lparr>servo_switch := (servo_switch st)
                       (s := int (if a = 0 then SERVO_SWITCH_MIN_ANGLE
                                  else SERVO_SWITCH_MAX_ANGLE))\<rparr>))
       \<and> (\<exists>st1 st2.
             process_request_by_char h st ''lego/train/switch/0/1'' = Inr (True, False, st1)
           \<and> servo_switch st1 0 = int SERVO_SWITCH_MAX_ANGLE
           \<and> process_request_by_char h st1 ''lego/train/switch/0/0'' = Inr (True, False, st2)
           \<and> servo_switch st2 0 = int SERVO_SWITCH_MIN_ANGLE)"
proof -
  from assms(2) have ang: "SERVO_SWITCH_ANGLES ! a =
      (if a = 0 then SERVO_SWITCH_MIN_ANGLE else SERVO_SWITCH_MAX_ANGLE)"
    by (auto simp: SERVO_SWITCH_ANGLES_def dest: less_2_cases)
  have up: "process_request_by_char h st' ''lego/train/switch/0/1'' =
      Inr (True, False, st'\<lparr>servo_switch := (servo_switch st')(0 := int SERVO_SWITCH_MAX_ANGLE)\<rparr>)"
    and down: "process_request_by_char h st' ''lego/train/switch/0/0'' =
      Inr (True, False, st'\<lparr>servo_switch := (servo_switch st')(0 := int SERVO_SWITCH_MIN_ANGLE)\<rparr>)"
    for st'
    using switch_command [of 0 1 h st'] switch_command [of 0 0 h st']
    by (simp_all add: decimal_digits NUM_SERVO_SWITCHES_def SERVO_SWITCH_ANGLES_def)
  have general: "process_request_by_char h st request =
            Inr (True, False,
                 st\<lparr>servo_switch := (servo_switch st)
                       (s := int (if a = 0 then SERVO_SWITCH_MIN_ANGLE
                                  else SERVO_SWITCH_MAX_ANGLE))\<rparr>)"
    if "length request < MAX_BUFFER_SIZE" "path_token request 0 = LEGO"
      "path_token request 1 = TRAIN" "path_token request 2 = SWITCH"
      "atoi (path_token request 3) = int s" "atoi (path_token request 4) = int a"
    using assms that(5,6) ang
    by (simp add: switch_request [OF that(1-4)] uchar_small NUM_SERVO_SWITCHES_def)
  show ?thesis
    using switch_command [OF assms, of h st] general by (simp add: ang up down)
qed

theorem switch_command_sets_registered_angle_witness:
  "(2::nat) < NUM_SERVO_SWITCHES \<and> (1::nat) < 2
   \<and> process_request_by_char protocol_header blank_memory ''lego/train/switch/2/1'' =
       Inr (True, False, blank_memory\<lparr>servo_switch := (servo_switch blank_memory)(2 := 85)\<rparr>)
   \<and> length ''lego/train/switch/02/+1'' < MAX_BUFFER_SIZE
   \<and> path_token ''lego/train/switch/02/+1'' 2 = SWITCH
   \<and> atoi (path_token ''lego/train/switch/02/+1'' 3) = 2
   \<and> atoi (path_token ''lego/train/switch/02/+1'' 4) = 1
   \<and> process_request_by_char protocol_header blank_memory ''lego/train/switch/02/+1'' =
       Inr (True, False, blank_memory\<lparr>servo_switch := (servo_switch blank_memory)(2 := 85)\<rparr>)"
proof -
  have toks: "length ''lego/train/switch/02/+1'' < MAX_BUFFER_SIZE"
    "path_token ''lego/train/switch/02/+1'' 0 = LEGO"
    "path_token ''lego/train/switch/02/+1'' 1 = TRAIN"
    "path_token ''lego/train/switch/02/+1'' 2 = SWITCH"
    "atoi (path_token ''lego/train/switch/02/+1'' 3) = int 2"
    "atoi (path_token ''lego/train/switch/02/+1'' 4) = int 1"
    by (simp_all add: token_defs SWITCH_def MAX_BUFFER_SIZE_def eval_nat_numeral atoi_def
          isspace_def isdigit_def int16_def)
  from switch_command_sets_registered_angle
         [of 2 1 protocol_header blank_memory "''lego/train/switch/02/+1''"] toks
  show ?thesis
    by (simp add: NUM_SERVO_SWITCHES_def decimal_digits SERVO_SWITCH_MAX_ANGLE_def)
qed

subsection \<open>Signals\<close>

lemma set_signal_result:
  "s < NUM_SIGNALS \<Longrightarrow>
   set_signal s l v st =
     Inr (st\<lparr>signal_pin := (signal_pin st)
            (2 * s := (if v = (0 = l) then LOW else HIGH),
             Suc (2 * s) := (if v = (Suc 0 = l) then LOW else HIGH))\<rparr>)"
  by (simp add: set_signal_def upt_2 write_signal_pin_def NUM_SIGNALS_def)

lemma signal_command:
  "s < NUM_SIGNALS \<Longrightarrow> l < 2 \<Longrightarrow> v < 2 \<Longrightarrow>
   process_request_by_char h st
     (''lego/train/signal/'' @ decimal s @ ''/'' @ decimal l @ ''/'' @ decimal v) =
     and_then (set_signal s l (v = 1) st) (\<lambda>st'. Inr (True, False, st'))"
  apply (simp only: NUM_SIGNALS_def)
  apply (drule less_2_cases, drule less_2_cases, drule less_2_cases)
  apply (elim disjE; simp add: decimal_digits;
         simp add: eval_defs train_signal_def NUM_SIGNALS_def)
  done

lemma set_signal_one_lamp:
  assumes "s < NUM_SIGNALS" "l < 2" "set_signal s l v st = Inr st'"
  shows "one_lamp_lit st' s" and "s' \<noteq> s \<Longrightarrow> one_lamp_lit st' s' = one_lamp_lit st s'"
    and "lit st' s l = v" and "lit st' s (1 - l) = (\<not> v)"
  using assms less_2_cases [of l]
  by (cases v; auto simp: set_signal_result one_lamp_lit_def lit_def)+

lemma signal_command_lights:
  assumes "s < NUM_SIGNALS" and "l < 2" and "v < 2"
  shows "\<exists>st'. process_request_by_char h st
           (''lego/train/signal/'' @ decimal s @ ''/'' @ decimal l @ ''/'' @ decimal v) =
             Inr (True, False, st')
          \<and> lit st' s l = (v = 1) \<and> lit st' s (1 - l) = (v \<noteq> 1)"
proof -
  obtain st' where st': "set_signal s l (v = 1) st = Inr st'"
    using assms(1) by (simp add: set_signal_result)
  have "process_request_by_char h st
           (''lego/train/signal/'' @ decimal s @ ''/'' @ decimal l @ ''/'' @ decimal v) =
             Inr (True, False, st')"
    by (simp only: signal_command [OF assms] st' and_then_def sum.case)
  with set_signal_one_lamp(3,4) [OF assms(1,2) st'] show ?thesis
    by blast
qed














text \<open>
  Claim C10: from any state, the command \<^verbatim>\<open>lego/train/signal/<s>/<l>/0\<close> with \<open>s\<close> below
  \<open>NUM_SIGNALS\<close> and \<open>l\<close> in \<open>{0, 1}\<close> is accepted, puts lamp \<open>l\<close> of signal \<open>s\<close> out and
  lights the other lamp of that signal.
\<close>

theorem signal_value_0_lights_other_lamp:
  assumes "s < NUM_SIGNALS" and "l < 2"
  shows "\<exists>st'. process_request_by_char h st
           (''lego/train/signal/'' @ decimal s @ ''/'' @ decimal l @ ''/0'') = Inr (True, False, st')
         \<and> \<not> lit st' s l \<and> lit st' s (1 - l)"
  using signal_command_lights [OF assms, of 0 h st] by (simp add: decimal_digits)

theorem signal_value_0_lights_other_lamp_witness:
  "(0::nat) < NUM_SIGNALS \<and> (0::nat) < 2
   \<and> (\<exists>st'. process_request_by_char protocol_header blank_memory ''lego/train/signal/0/0/0'' =
              Inr (True, False, st')
         \<and> \<not> lit st' 0 0 \<and> lit st' 0 1)"
  using signal_value_0_lights_other_lamp [of 0 0 protocol_header blank_memory]
  by (simp add: NUM_SIGNALS_def decimal_digits)

subsection \<open>The IR queue\<close>

lemma queue_load_4: "queue_load st 4 = Inl (Index_past_array QUEUE_SIZE)"
  by (simp add: queue_load_def QUEUE_SIZE_def)

lemma queue_load_below: "k < 4 \<Longrightarrow> queue_load st k = Inr (queue st k)"
  by (simp add: queue_load_def QUEUE_SIZE_def)

lemma SingleOutput_faults: "SingleOutput st i = Inl (Index_past_array QUEUE_SIZE)"
  by (simp add: SingleOutput_def and_then_def queue_load_4 queue_load_below)

lemma update_pf_ir_queue_result:
  "update_pf_ir_queue st =
     (if queue st 0 > 0 then Inl (Index_past_array QUEUE_SIZE) else Inr (st, []))"
  by (simp add: update_pf_ir_queue_def NUM_LEGO_PF_def upt_2 SingleOutput_faults and_then_def)

text \<open>
  Claim C5 (with a count above 0, every tick sends the stored command once on every IR
  output and lowers the count). The command that a tick sends is
  \<^verbatim>\<open>queue[1], queue[2], queue[3], queue[4]\<close>, and \<^verbatim>\<open>queue[4]\<close> is not a cell of the
  queue: with the count 5 and any mode, step and output in the queue, the tick reads
  behind the array for the channel before anything is sent or counted down.
\<close>

theorem tick_reads_channel_past_queue:
  "update_pf_ir_queue (st\<lparr>queue := (queue st)(0 := 5, 1 := mode, 2 := step, 3 := output)\<rparr>) =
     Inl (Index_past_array QUEUE_SIZE)"
  by (simp add: update_pf_ir_queue_result)

subsection \<open>Position sensors\<close>

lemma inverted_reading:
  "uchar ((int (uchar r) + 1) mod 2) < 2"
  "r = 1 \<Longrightarrow> uchar ((int (uchar r) + 1) mod 2) = 0"
  "r = 0 \<Longrightarrow> uchar ((int (uchar r) + 1) mod 2) = 1"
  by (simp_all add: uchar_def nat_less_iff)

text \<open>Behind start-up the client is not connected, the queue is empty and both sensors
  hold the value 2.\<close>

lemma start_facts:
  assumes "setup_board mem = Inr st"
  shows "\<not> mqtt_connected st" and "queue st 0 = 0"
    and "position_sensor st 0 = 2" and "position_sensor st (Suc 0) = 2"
  using assms
  by (auto simp: setup_board_result static_init_def NUM_POSITION_SENSORS_def QUEUE_SIZE_def)

text \<open>A poll by a client that is not connected publishes nothing and stores the inverted
  readings; a poll that finds the stored values again changes nothing.\<close>

lemma poll_not_connected:
  "\<not> mqtt_connected st \<Longrightarrow> snd (poll_sensors is raw st) = []"
  by (induction "is" arbitrary: st)
     (simp_all add: Let_def split_beta mqtt_publish_position_sensor_def)

lemma poll_unchanged:
  "(\<And>i. i \<in> set is \<Longrightarrow> position_sensor st i = uchar ((int (uchar (raw i)) + 1) mod 2)) \<Longrightarrow>
   poll_sensors is raw st = (st, [])"
  by (induction "is" arbitrary: st) (simp_all add: Let_def)

lemma first_poll_state:
  assumes "position_sensor st 0 = 2" and "position_sensor st (Suc 0) = 2"
  shows "fst (update_position_sensors st raw) =
           st\<lparr>position_sensor := (position_sensor st)
                 (0 := uchar ((int (uchar (raw 0)) + 1) mod 2),
                  Suc 0 := uchar ((int (uchar (raw (Suc 0))) + 1) mod 2))\<rparr>"
proof -
  from inverted_reading(1) [of "raw 0"] inverted_reading(1) [of "raw (Suc 0)"]
  have ne: "uchar ((int (uchar (raw 0)) + 1) mod 2) \<noteq> 2"
    "uchar ((int (uchar (raw (Suc 0))) + 1) mod 2) \<noteq> 2"
    by simp_all
  show ?thesis
    by (simp add: update_position_sensors_def NUM_POSITION_SENSORS_def upt_2 Let_def assms ne
          split_beta)
qed

text \<open>
  Claim C7 (the first poll behind start-up emits one change notification for every
  sensor, carrying its id and the inverted reading). \<^verbatim>\<open>setup\<close> does not connect the
  MQTT client, and \<^verbatim>\<open>loop\<close> polls the sensors before \<^verbatim>\<open>update_mqtt\<close> connects it.
  So, whatever the pins read, the first pass of the loop publishes nothing; it stores the
  inverted readings over the start value 2; and the next pass, now connected, finds the
  same readings unchanged and publishes nothing either.
\<close>

theorem first_poll_publishes_nothing:
  "\<exists>st st1 st2. setup_board mem = Inr st
      \<and> \<not> mqtt_connected st
      \<and> position_sensor st 0 = 2 \<and> position_sensor st 1 = 2
      \<and> loop st raw True = Inr (st1, [], [])
      \<and> position_sensor st1 0 = uchar ((int (uchar (raw 0)) + 1) mod 2)
      \<and> position_sensor st1 1 = uchar ((int (uchar (raw 1)) + 1) mod 2)
      \<and> position_sensor st1 0 \<noteq> 2 \<and> position_sensor st1 1 \<noteq> 2
      \<and> mqtt_connected st1
      \<and> loop st1 raw True = Inr (st2, [], [])"
proof -
  obtain st where st: "setup_board mem = Inr st"
    by (simp add: setup_board_result)
  note facts = start_facts [OF st]
  define st0 where "st0 = fst (update_position_sensors st raw)"
  have poll1: "update_position_sensors st raw = (st0, [])"
    using poll_not_connected [OF facts(1), of "[0 ..< NUM_POSITION_SENSORS]" raw]
    by (simp add: st0_def update_position_sensors_def prod_eq_iff)
  have st0: "st0 = st\<lparr>position_sensor := (position_sensor st)
                 (0 := uchar ((int (uchar (raw 0)) + 1) mod 2),
                  Suc 0 := uchar ((int (uchar (raw (Suc 0))) + 1) mod 2))\<rparr>"
    unfolding st0_def by (rule first_poll_state [OF facts(3,4)])
  define st1 where "st1 = st0\<lparr>mqtt_connected := True\<rparr>"
  have pass1: "loop st raw True = Inr (st1, [], [])"
    using facts(1,2)
    by (simp add: loop_def poll1 update_pf_ir_queue_result and_then_def update_mqtt_def
          st1_def st0)
  have sens: "position_sensor st1 0 = uchar ((int (uchar (raw 0)) + 1) mod 2)"
    "position_sensor st1 (Suc 0) = uchar ((int (uchar (raw (Suc 0))) + 1) mod 2)"
    by (simp_all add: st1_def st0)
  have poll2: "update_position_sensors st1 raw = (st1, [])"
    unfolding update_position_sensors_def
    by (rule poll_unchanged) (auto simp: NUM_POSITION_SENSORS_def sens dest: less_2_cases)
  have q1: "queue st1 0 = 0" "mqtt_connected st1"
    by (simp_all add: st1_def st0 facts(2))
  have pass2: "loop st1 raw True = Inr (st1, [], [])"
    by (simp add: loop_def poll2 update_pf_ir_queue_result and_then_def update_mqtt_def q1)
  from inverted_reading(1) [of "raw 0"] inverted_reading(1) [of "raw (Suc 0)"]
  have "position_sensor st1 0 \<noteq> 2" "position_sensor st1 (Suc 0) \<noteq> 2"
    by (simp_all add: sens)
  with st facts pass1 pass2 sens q1 show ?thesis
    by auto
qed

end
